theory Spec2Isabelle
  imports Main "HOL-Library.Sublist"
begin

section \<open>JavaScript values\<close>

text \<open>
  The upstream feature services return JSON, and the source reads it at type \<open>any\<close>.
  A raw value is therefore one of the JavaScript values that \<open>JSON.parse\<close> can
  build, plus \<open>undefined\<close> (the value of a missing property or a missing argument)
  and \<open>NaN\<close>. Arrays and objects carry a reference number because \<open>===\<close>
  compares them by identity, not by content. Numbers are modelled by integers: the source
  only tests them for truthiness, compares them with \<open>===\<close> and converts them to
  strings. An integer stands for the number whose shortest decimal form it is. Strings are
  lists of code units restricted to the 8-bit range.
\<close>

datatype jsval =
    JUndefined
  | JNull
  | JBool bool
  | JNaN
  | JNum int
  | JStr string
  | JArr nat "jsval list"
  | JObj nat "(string \<times> jsval) list"

datatype error = TypeError | SyntaxError | AbortError | NetworkError

fun truthy :: "jsval \<Rightarrow> bool" where
  "truthy JUndefined = False"
| "truthy JNull = False"
| "truthy (JBool b) = b"
| "truthy JNaN = False"
| "truthy (JNum n) = (n \<noteq> 0)"
| "truthy (JStr s) = (s \<noteq> [])"
| "truthy (JArr r xs) = True"
| "truthy (JObj r kvs) = True"

fun nullish :: "jsval \<Rightarrow> bool" where
  "nullish JUndefined = True"
| "nullish JNull = True"
| "nullish v = False"

text \<open>The operator \<open>===\<close>.\<close>

fun strict_eq :: "jsval \<Rightarrow> jsval \<Rightarrow> bool" where
  "strict_eq JUndefined JUndefined = True"
| "strict_eq JNull JNull = True"
| "strict_eq (JBool a) (JBool b) = (a = b)"
| "strict_eq (JNum a) (JNum b) = (a = b)"
| "strict_eq (JStr a) (JStr b) = (a = b)"
| "strict_eq (JArr r xs) (JArr r' ys) = (r = r')"
| "strict_eq (JObj r xs) (JObj r' ys) = (r = r')"
| "strict_eq v w = False"

text \<open>
  Reading the property \<open>k\<close> of a value that is neither \<open>null\<close> nor \<open>undefined\<close>.
  The program reads only fixed upper- and lower-case field names (\<open>NAME\<close>, \<open>LEAID\<close>,
  \<open>attributes\<close>, \<open>geometry\<close>, \<open>features\<close>, \<open>x\<close>, \<open>y\<close>, ...), none of which is a
  built-in property of arrays, strings, numbers or booleans, so on those values the read
  gives \<open>undefined\<close>. On \<open>null\<close> and \<open>undefined\<close> the read raises a TypeError; each
  function below tests \<open>nullish\<close> before its first read.
\<close>

fun get :: "jsval \<Rightarrow> string \<Rightarrow> jsval" where
  "get (JObj r kvs) k = (case map_of kvs k of Some v \<Rightarrow> v | None \<Rightarrow> JUndefined)"
| "get v k = JUndefined"

text \<open>The chain \<open>x1 || x2 || ... || xn\<close>: the first truthy operand, else the last one.\<close>

fun ors :: "jsval list \<Rightarrow> jsval" where
  "ors [] = JUndefined"
| "ors [x] = x"
| "ors (x # xs) = (if truthy x then x else ors xs)"

subsection \<open>Conversion to string, as a template literal does it\<close>

text \<open>A raised exception ends the computation; \<open>bind_err\<close> passes it on.\<close>

fun bind_err :: "error + 'a \<Rightarrow> ('a \<Rightarrow> error + 'b) \<Rightarrow> error + 'b" where
  "bind_err (Inl e) f = Inl e"
| "bind_err (Inr x) f = f x"

fun digit :: "nat \<Rightarrow> char" where
  "digit n = char_of (48 + n)"

fun digits :: "nat \<Rightarrow> string" where
  "digits n = (if n < 10 then [digit n] else digits (n div 10) @ [digit (n mod 10)])"

text \<open>
  \<open>Number::toString\<close> on a non-negative integer with the decimal digits \<open>ds\<close>: plain
  decimal up to 21 digits, and beyond that the significant digits (the trailing zeros
  dropped, a point after the first) followed by \<open>e+\<close> and the exponent.
\<close>

definition numberText :: "nat \<Rightarrow> string" where
  "numberText n =
    (let ds = digits n;
         significant = rev (dropWhile (\<lambda>c. c = CHR ''0'') (rev ds))
     in if length ds \<le> 21 then ds
        else if length significant = 1 then significant @ ''e+'' @ digits (length ds - 1)
        else hd significant # ''.'' @ tl significant @ ''e+'' @ digits (length ds - 1))"

fun join :: "string \<Rightarrow> string list \<Rightarrow> string" where
  "join sep [] = []"
| "join sep [s] = s"
| "join sep (s # ss) = s @ sep @ join sep ss"

text \<open>
  \<open>ToString\<close>, as a template literal and \<open>localeCompare\<close> apply it. An object is converted
  through its \<open>toString\<close> property: without an own \<open>toString\<close> key that is
  \<open>Object.prototype.toString\<close>, which gives \<open>[object Object]\<close>; an own \<open>toString\<close> key of
  parsed JSON is never a function, \<open>valueOf\<close> then gives no primitive either, and the
  conversion raises a TypeError. An array joins the conversions of its elements with a
  comma, \<open>null\<close> and \<open>undefined\<close> counting as empty strings.
\<close>

fun ToString :: "jsval \<Rightarrow> error + string"
  and ToStringElements :: "jsval list \<Rightarrow> error + string list" where
  "ToString JUndefined = Inr ''undefined''"
| "ToString JNull = Inr ''null''"
| "ToString (JBool b) = Inr (if b then ''true'' else ''false'')"
| "ToString JNaN = Inr ''NaN''"
| "ToString (JNum n) = Inr (if n < 0 then ''-'' @ numberText (nat (- n)) else numberText (nat n))"
| "ToString (JStr s) = Inr s"
| "ToString (JArr r xs) = bind_err (ToStringElements xs) (\<lambda>ss. Inr (join '','' ss))"
| "ToString (JObj r kvs) =
    (case map_of kvs ''toString'' of
       None \<Rightarrow> Inr ''[object Object]''
     | Some v \<Rightarrow> Inl TypeError)"
| "ToStringElements [] = Inr []"
| "ToStringElements (x # xs) =
    bind_err (if nullish x then Inr [] else ToString x) (\<lambda>s.
    bind_err (ToStringElements xs) (\<lambda>ss. Inr (s # ss)))"

section \<open>The normalizer (maps.ts)\<close>

record NCESSchoolFeatureAttributes =
  NCESSCH :: jsval
  LEAID :: jsval
  NAME :: jsval
  OPSTFIPS :: jsval
  STREET :: jsval
  CITY :: jsval
  STATE :: jsval
  ZIP :: jsval
  STFIP :: jsval
  CNTY :: jsval
  NMCNTY :: jsval
  LOCALE :: jsval
  LAT :: jsval
  LON :: jsval
  OBJECTID :: jsval

text \<open>
  The district record has fields of the same names as the school record; they are
  prefixed with \<open>d_\<close> here.
\<close>

record NCESDistrictFeatureAttributes =
  d_OBJECTID :: jsval
  d_LEAID :: jsval
  d_NAME :: jsval
  d_OPSTFIPS :: jsval
  d_LSTREE :: jsval
  d_LCITY :: jsval
  d_LSTATE :: jsval
  d_LZIP :: jsval
  d_LZIP4 :: jsval
  d_STFIP15 :: jsval
  d_CNTY15 :: jsval
  d_NMCNTY15 :: jsval
  d_LAT1516 :: jsval
  d_LON1516 :: jsval
  d_ST :: jsval

text \<open>
  \<open>normalizeSchoolAttributes(a, geometry)\<close>. The first statement reads \<open>a.NAME\<close>, which
  raises a TypeError when \<open>a\<close> is \<open>null\<close> or \<open>undefined\<close>. \<open>geometry.y\<close> is read only
  after \<open>geometry\<close> was found truthy. \<open>STFIP\<close> is declared by the interface and never
  assigned.
\<close>

definition normalizeSchoolAttributes :: "jsval \<Rightarrow> jsval \<Rightarrow> error + NCESSchoolFeatureAttributes" where
  "normalizeSchoolAttributes a geometry =
    (if nullish a then Inl TypeError
     else
       let lat0 = ors [get a ''LAT'', get a ''Y'', get a ''lat'', get a ''latitude''];
           lon0 = ors [get a ''LON'', get a ''X'', get a ''lon'', get a ''longitude''];
           fallback = ((\<not> truthy lat0 \<or> \<not> truthy lon0) \<and> truthy geometry)
       in Inr \<lparr>
         NCESSCH = ors [get a ''NCESSCH'', get a ''SCHID'', get a ''NCES_ID'', get a ''NCES'', JStr []],
         LEAID = ors [get a ''LEAID'', get a ''LEA_ID'', get a ''LEA'', JStr []],
         NAME = ors [get a ''NAME'', get a ''SCH_NAME'', get a ''SCHOOL_NAME'', get a ''SchoolName'',
                     get a ''NAME_'', JStr []],
         OPSTFIPS = ors [get a ''OPSTFIPS'', get a ''STFIP''],
         STREET = ors [get a ''STREET'', get a ''MAIL_STREET'', get a ''LSTREET1'', get a ''ADDRESS'',
                       get a ''LSTREET'', JStr []],
         CITY = ors [get a ''CITY'', get a ''MAIL_CITY'', get a ''LCITY'', get a ''TOWN'', JStr []],
         STATE = ors [get a ''STATE'', get a ''ST'', get a ''MAIL_STATE'', get a ''LSTATE'', JStr []],
         ZIP = ors [get a ''ZIP'', get a ''MAIL_ZIP'', get a ''LZIP'', get a ''POSTAL'', get a ''ZIP_CODE'',
                    JStr []],
         STFIP = JUndefined,
         CNTY = ors [get a ''CNTY'', get a ''COUNTY''],
         NMCNTY = ors [get a ''NMCNTY'', get a ''COUNTYNAME''],
         LOCALE = get a ''LOCALE'',
         LAT = (if fallback then ors [get geometry ''y'', lat0] else lat0),
         LON = (if fallback then ors [get geometry ''x'', lon0] else lon0),
         OBJECTID = ors [get a ''OBJECTID'', get a ''OBJECT_ID'']
       \<rparr>)"

text \<open>
  \<open>normalizeDistrictAttributes(a)\<close>; its first statement reads \<open>a.OBJECTID\<close>. The template
  literal of the name is evaluated only when the three name fields are falsy, and raises
  when the conversion of \<open>a.LEAID || 'Unknown'\<close> does.
\<close>

definition normalizeDistrictAttributes :: "jsval \<Rightarrow> error + NCESDistrictFeatureAttributes" where
  "normalizeDistrictAttributes a =
    (if nullish a then Inl TypeError
     else
       bind_err
         (let named = ors [get a ''DISTRICT'', get a ''LEA_NAME'', get a ''LEANM'']
          in if truthy named then Inr named
             else bind_err (ToString (ors [get a ''LEAID'', JStr ''Unknown'']))
                    (\<lambda>s. Inr (JStr (''District '' @ s))))
         (\<lambda>name. Inr \<lparr>
           d_OBJECTID = ors [get a ''OBJECTID'', get a ''OBJECT_ID''],
           d_LEAID = ors [get a ''LEAID'', get a ''LEA_ID'', get a ''LEA'', JStr []],
           d_NAME = name,
           d_OPSTFIPS = JUndefined,
           d_LSTREE = ors [get a ''LSTREE'', get a ''LSTREET'', get a ''STREET'', JStr []],
           d_LCITY = ors [get a ''LCITY'', get a ''CITY'', JStr []],
           d_LSTATE = ors [get a ''LSTATE'', get a ''STATE'', get a ''ST'', JStr []],
           d_LZIP = ors [get a ''LZIP'', get a ''ZIP'', JStr []],
           d_LZIP4 = get a ''LZIP4'',
           d_STFIP15 = ors [get a ''STFIP15'', get a ''STFIP''],
           d_CNTY15 = ors [get a ''CNTY15'', get a ''CNTY''],
           d_NMCNTY15 = ors [get a ''NMCNTY15'', get a ''NMCNTY''],
           d_LAT1516 = ors [get a ''LAT1516'', get a ''LAT'', get a ''latitude''],
           d_LON1516 = ors [get a ''LON1516'', get a ''LON'', get a ''longitude''],
           d_ST = ors [get a ''LSTATE'', get a ''ST'', get a ''STATE'', get a ''STATE_CODE'', JStr []]
         \<rparr>))"

section \<open>The query executor (maps.ts)\<close>

subsection \<open>The injected fetch capability\<close>

text \<open>
  A request is determined by the endpoint, the \<open>where\<close> clause and the record cap; the
  remaining parts of the URL are constants. \<open>fetch\<close> either rejects (network error,
  abort) or resolves with a response that has an \<open>ok\<close> flag and a body; reading the body
  with \<open>json()\<close> either gives a value or rejects (malformed JSON, abort while reading).
\<close>

datatype endpoint = PrivateSchools | PublicSchools

record request =
  endpoint :: endpoint
  whereClause :: string
  resultRecordCount :: nat

datatype body = JsonResolves jsval | JsonRejects error

datatype fetch_outcome = FetchRejects error | FetchResolves bool body

datatype log_entry =
    PrivateFetchError error
  | PublicFetchError error
  | DistrictSearchError error
  | SchoolSearchError error

datatype 'a promise = Fulfilled 'a | Rejected error

text \<open>What one call of an async function did: the requests it issued, what it wrote with
  \<open>console.error\<close>, and how its promise settled.\<close>

record 'a run =
  requests :: "request list"
  logged :: "log_entry list"
  settled :: "'a promise"

subsection \<open>Helpers\<close>

definition isSpace :: "char \<Rightarrow> bool" where
  "isSpace c = (of_char c \<in> {9, 10, 11, 12, 13, 32, 160 :: nat})"

definition trim :: "string \<Rightarrow> string" where
  "trim s = rev (dropWhile isSpace (rev (dropWhile isSpace s)))"

fun map_err :: "('a \<Rightarrow> error + 'b) \<Rightarrow> 'a list \<Rightarrow> error + 'b list" where
  "map_err f [] = Inr []"
| "map_err f (x # xs) = bind_err (f x) (\<lambda>y. bind_err (map_err f xs) (\<lambda>ys. Inr (y # ys)))"

text \<open>The literal \<open>{ features: [] }\<close>; its identity is never observed.\<close>

definition emptyFeatures :: jsval where
  "emptyFeatures = JObj 0 [(''features'', JArr 0 [])]"

text \<open>
  \<open>fetch(url, { signal }).catch(() => ({ ok: false }))\<close> followed by
  \<open>res.ok ? await res.json() : { features: [] }\<close>.
\<close>

definition awaitJson :: "fetch_outcome \<Rightarrow> error + jsval" where
  "awaitJson res =
    (case res of
       FetchRejects e \<Rightarrow> Inr emptyFeatures
     | FetchResolves ok b \<Rightarrow>
         (if ok then (case b of JsonResolves v \<Rightarrow> Inr v | JsonRejects e \<Rightarrow> Inl e)
          else Inr emptyFeatures))"

text \<open>\<open>Array.isArray(json.features) ? json.features : []\<close>\<close>

definition featuresOf :: "jsval \<Rightarrow> error + jsval list" where
  "featuresOf json =
    (if nullish json then Inl TypeError
     else (case get json ''features'' of JArr r fs \<Rightarrow> Inr fs | _ \<Rightarrow> Inr []))"

definition findIndex :: "('a \<Rightarrow> bool) \<Rightarrow> 'a list \<Rightarrow> int" where
  "findIndex P xs = (if list_ex P xs then int (length (takeWhile (\<lambda>x. \<not> P x) xs)) else - 1)"

text \<open>\<open>self.filter((x, index, self) => p(x, index, self))\<close>\<close>

definition filterIndexed :: "('a \<Rightarrow> nat \<Rightarrow> 'a list \<Rightarrow> bool) \<Rightarrow> 'a list \<Rightarrow> 'a list" where
  "filterIndexed p self = map fst (filter (\<lambda>(x, i). p x i self) (zip self [0..<length self]))"

definition quote :: string where
  "quote = [CHR 0x27]"

subsection \<open>searchSchools\<close>

text \<open>\<open>normalizeSchoolAttributes(f.attributes || f, f.geometry)\<close>\<close>

definition normalizeFeature :: "jsval \<Rightarrow> error + NCESSchoolFeatureAttributes" where
  "normalizeFeature f =
    (if nullish f then Inl TypeError
     else normalizeSchoolAttributes (ors [get f ''attributes'', f]) (get f ''geometry''))"

text \<open>The callback of \<open>normalized.filter\<close>.\<close>

definition dedupKeep ::
  "NCESSchoolFeatureAttributes \<Rightarrow> nat \<Rightarrow> NCESSchoolFeatureAttributes list \<Rightarrow> bool" where
  "dedupKeep school index self =
    (if truthy (NCESSCH school)
     then findIndex (\<lambda>s. strict_eq (NCESSCH s) (NCESSCH school)) self = int index
     else findIndex (\<lambda>s. strict_eq (NAME s) (NAME school) \<and>
                         strict_eq (CITY s) (CITY school) \<and>
                         strict_eq (STATE s) (STATE school)) self = int index)"

definition dedupSchools :: "NCESSchoolFeatureAttributes list \<Rightarrow> NCESSchoolFeatureAttributes list" where
  "dedupSchools normalized = filterIndexed dedupKeep normalized"

text \<open>Lines 162 to 173; the template literal of the district filter raises when the
  conversion of \<open>districtLEAID\<close> does.\<close>

definition schoolWhereClause :: "string \<Rightarrow> jsval \<Rightarrow> error + string" where
  "schoolWhereClause name districtLEAID =
    (let nameQuery = trim name;
         whereClause =
           (if nameQuery \<noteq> [] \<and> 2 \<le> length nameQuery
            then ''UPPER(NAME) LIKE UPPER('' @ quote @ ''%'' @ nameQuery @ ''%'' @ quote @ '')''
            else ''1=1'')
     in if truthy districtLEAID
        then bind_err (ToString districtLEAID)
               (\<lambda>s. Inr (whereClause @ '' AND LEAID = '' @ quote @ s @ quote))
        else Inr whereClause)"

text \<open>The body of the \<open>try\<close> block once both fetches have settled (lines 183 to 204).\<close>

definition schoolsFrom :: "fetch_outcome \<Rightarrow> fetch_outcome \<Rightarrow> error + NCESSchoolFeatureAttributes list" where
  "schoolsFrom privateRes publicRes =
    bind_err (awaitJson privateRes) (\<lambda>privateJson.
    bind_err (awaitJson publicRes) (\<lambda>publicJson.
    bind_err (featuresOf privateJson) (\<lambda>privateFeatures.
    bind_err (featuresOf publicJson) (\<lambda>publicFeatures.
    bind_err (map_err normalizeFeature (privateFeatures @ publicFeatures)) (\<lambda>normalized.
    Inr (dedupSchools normalized))))))"

text \<open>
  \<open>searchSchools\<close>: when building the where clause raises, the \<open>catch\<close> block returns the
  empty list before any fetch was issued.
\<close>

definition searchSchools ::
  "(request \<Rightarrow> fetch_outcome) \<Rightarrow> string \<Rightarrow> jsval \<Rightarrow> NCESSchoolFeatureAttributes list run" where
  "searchSchools fetch name districtLEAID =
    (case schoolWhereClause name districtLEAID of
       Inl err \<Rightarrow>
         \<lparr>requests = [],
          logged = (if err \<noteq> AbortError then [SchoolSearchError err] else []),
          settled = Fulfilled []\<rparr>
     | Inr clause \<Rightarrow>
         let privateSchoolEndpoint =
               \<lparr>endpoint = PrivateSchools, whereClause = clause, resultRecordCount = 100\<rparr>;
             publicSchoolEndpoint =
               \<lparr>endpoint = PublicSchools, whereClause = clause, resultRecordCount = 100\<rparr>
         in (case schoolsFrom (fetch privateSchoolEndpoint) (fetch publicSchoolEndpoint) of
               Inr unique \<Rightarrow>
                 \<lparr>requests = [privateSchoolEndpoint, publicSchoolEndpoint], logged = [],
                  settled = Fulfilled unique\<rparr>
             | Inl err \<Rightarrow>
                 \<lparr>requests = [privateSchoolEndpoint, publicSchoolEndpoint],
                  logged = (if err \<noteq> AbortError then [SchoolSearchError err] else []),
                  settled = Fulfilled []\<rparr>))"

subsection \<open>searchSchoolDistricts\<close>

text \<open>Key comparison of \<open>Map\<close>.\<close>

definition sameValueZero :: "jsval \<Rightarrow> jsval \<Rightarrow> bool" where
  "sameValueZero a b = (strict_eq a b \<or> (a = JNaN \<and> b = JNaN))"

text \<open>The \<open>forEach\<close> that fills \<open>districtMap\<close>; the map keeps insertion order.\<close>

fun collectDistricts ::
  "jsval list \<Rightarrow> (jsval \<times> NCESDistrictFeatureAttributes) list
     \<Rightarrow> error + (jsval \<times> NCESDistrictFeatureAttributes) list" where
  "collectDistricts [] districtMap = Inr districtMap"
| "collectDistricts (f # fs) districtMap =
    (if nullish f then Inl TypeError
     else
       let attrs = ors [get f ''attributes'', f];
           leaId = ors [get attrs ''LEAID'', get attrs ''LEA_ID'', get attrs ''LEA'']
       in if truthy leaId \<and> \<not> list_ex (\<lambda>(k, d). sameValueZero k leaId) districtMap
          then bind_err (normalizeDistrictAttributes attrs)
                 (\<lambda>district. collectDistricts fs (districtMap @ [(leaId, district)]))
          else collectDistricts fs districtMap)"

text \<open>
  The comparator \<open>(a.NAME || '').localeCompare(b.NAME || '')\<close>. Only a string has the
  method; the argument is converted to a string, which may raise. The collation
  \<open>localeCompare\<close> belongs to the host and is a parameter.
\<close>

definition compareNames ::
  "(string \<Rightarrow> string \<Rightarrow> int) \<Rightarrow> NCESDistrictFeatureAttributes \<Rightarrow> NCESDistrictFeatureAttributes
     \<Rightarrow> error + int" where
  "compareNames localeCompare a b =
    (case ors [d_NAME a, JStr []] of
       JStr s \<Rightarrow> bind_err (ToString (ors [d_NAME b, JStr []])) (\<lambda>t. Inr (localeCompare s t))
     | _ \<Rightarrow> Inl TypeError)"

text \<open>
  \<open>Array.prototype.sort\<close> is stable; which pairs it compares is left to the engine. The
  model is the stable insertion sort that calls the comparator as V8 does, with the element
  being inserted (the later one) as \<open>a\<close> and an element of the sorted prefix as \<open>b\<close>; an
  exception of the comparator ends it.
\<close>

fun insertBy :: "('a \<Rightarrow> 'a \<Rightarrow> error + int) \<Rightarrow> 'a \<Rightarrow> 'a list \<Rightarrow> error + 'a list" where
  "insertBy cmp pivot [] = Inr [pivot]"
| "insertBy cmp pivot (y # ys) =
    bind_err (cmp pivot y) (\<lambda>order.
      if order < 0 then Inr (pivot # y # ys)
      else bind_err (insertBy cmp pivot ys) (\<lambda>zs. Inr (y # zs)))"

fun insertAll :: "('a \<Rightarrow> 'a \<Rightarrow> error + int) \<Rightarrow> 'a list \<Rightarrow> 'a list \<Rightarrow> error + 'a list" where
  "insertAll cmp placed [] = Inr placed"
| "insertAll cmp placed (pivot # rest) =
    bind_err (insertBy cmp pivot placed) (\<lambda>placed'. insertAll cmp placed' rest)"

definition sortBy :: "('a \<Rightarrow> 'a \<Rightarrow> error + int) \<Rightarrow> 'a list \<Rightarrow> error + 'a list" where
  "sortBy cmp xs = insertAll cmp [] xs"

definition districtsFrom ::
  "(string \<Rightarrow> string \<Rightarrow> int) \<Rightarrow> fetch_outcome \<Rightarrow> fetch_outcome
     \<Rightarrow> error + NCESDistrictFeatureAttributes list" where
  "districtsFrom localeCompare privateRes publicRes =
    bind_err (awaitJson privateRes) (\<lambda>privateJson.
    bind_err (awaitJson publicRes) (\<lambda>publicJson.
    bind_err (featuresOf privateJson) (\<lambda>privateFeatures.
    bind_err (featuresOf publicJson) (\<lambda>publicFeatures.
    bind_err (collectDistricts (privateFeatures @ publicFeatures) []) (\<lambda>districtMap.
    sortBy (compareNames localeCompare) (map snd districtMap))))))"

text \<open>What the two \<open>.catch\<close> handlers of the fetches write.\<close>

definition fetchErrors :: "fetch_outcome \<Rightarrow> fetch_outcome \<Rightarrow> log_entry list" where
  "fetchErrors privateRes publicRes =
    (case privateRes of FetchRejects e \<Rightarrow> [PrivateFetchError e] | _ \<Rightarrow> []) @
    (case publicRes of FetchRejects e \<Rightarrow> [PublicFetchError e] | _ \<Rightarrow> [])"

definition districtWhereClause :: "string \<Rightarrow> string" where
  "districtWhereClause name =
    ''UPPER(NAME) LIKE UPPER('' @ quote @ ''%'' @ trim name @ ''%'' @ quote @ '')''"

definition searchSchoolDistricts ::
  "(string \<Rightarrow> string \<Rightarrow> int) \<Rightarrow> (request \<Rightarrow> fetch_outcome) \<Rightarrow> string
     \<Rightarrow> NCESDistrictFeatureAttributes list run" where
  "searchSchoolDistricts localeCompare fetch name =
    (if name = [] \<or> length (trim name) < 2
     then \<lparr>requests = [], logged = [], settled = Fulfilled []\<rparr>
     else
       let whereClause = districtWhereClause name;
           privateSchoolEndpoint =
             \<lparr>endpoint = PrivateSchools, whereClause = whereClause, resultRecordCount = 500\<rparr>;
           publicSchoolEndpoint =
             \<lparr>endpoint = PublicSchools, whereClause = whereClause, resultRecordCount = 500\<rparr>;
           privateRes = fetch privateSchoolEndpoint;
           publicRes = fetch publicSchoolEndpoint
       in case districtsFrom localeCompare privateRes publicRes of
            Inr districts \<Rightarrow>
              \<lparr>requests = [privateSchoolEndpoint, publicSchoolEndpoint],
               logged = fetchErrors privateRes publicRes,
               settled = Fulfilled districts\<rparr>
          | Inl err \<Rightarrow>
              \<lparr>requests = [privateSchoolEndpoint, publicSchoolEndpoint],
               logged = fetchErrors privateRes publicRes @
                        (if err \<noteq> AbortError then [DistrictSearchError err] else []),
               settled = Fulfilled []\<rparr>)"

section \<open>The search controller (Home.tsx), school pipeline\<close>

text \<open>
  A query issued by the school effect: the arguments it passed to \<open>searchSchools\<close>, the
  values its \<open>.then\<close> callback closes over (\<open>cacheKey\<close> and the \<open>selectedSchool\<close> of the
  render that ran the effect), whether its \<open>AbortController\<close> was aborted and whether its
  promise has settled.
\<close>

record school_query =
  q_name :: string
  q_districtLEAID :: jsval
  q_cacheKey :: string
  q_selectedSchool :: "NCESSchoolFeatureAttributes option"
  q_aborted :: bool
  q_settled :: bool

text \<open>
  The component state. \<open>schoolQueries\<close> lists every query issued so far; \<open>schoolCleanup\<close>
  is the query whose controller the effect's pending cleanup function aborts; \<open>crashed\<close>
  records that an effect raised an exception, on which React tears the component down.
\<close>

record session =
  debouncedSchoolQuery :: string
  districts :: "NCESDistrictFeatureAttributes list"
  schools :: "NCESSchoolFeatureAttributes list"
  selectedDistrict :: "NCESDistrictFeatureAttributes option"
  selectedSchool :: "NCESSchoolFeatureAttributes option"
  loadingSchools :: bool
  schoolCache :: "string \<rightharpoonup> NCESSchoolFeatureAttributes list"
  schoolQueries :: "school_query list"
  schoolCleanup :: "nat option"
  crashed :: bool

text \<open>The state of the first render.\<close>

definition initialSession :: session where
  "initialSession =
    \<lparr>debouncedSchoolQuery = [], districts = [], schools = [], selectedDistrict = None,
     selectedSchool = None, loadingSchools = False, schoolCache = Map.empty,
     schoolQueries = [], schoolCleanup = None, crashed = False\<rparr>"

text \<open>The cleanup \<open>() => controller.abort()\<close> of the previous run of the effect.\<close>

definition runSchoolCleanup :: "session \<Rightarrow> session" where
  "runSchoolCleanup st =
    (case schoolCleanup st of
       None \<Rightarrow> st
     | Some i \<Rightarrow>
         (if i < length (schoolQueries st)
          then st\<lparr>schoolQueries := (schoolQueries st)[i := (schoolQueries st ! i)\<lparr>q_aborted := True\<rparr>],
                  schoolCleanup := None\<rparr>
          else st\<lparr>schoolCleanup := None\<rparr>))"

text \<open>
  The cache key \<open>`${leaId || "all"}-${q}`\<close> of a district identifier whose conversion to a
  string does not raise: a string, as \<open>handleDistrictChange\<close> has it, or \<open>undefined\<close>. (The
  school effect, where the identifier is read from the selected district, tests the
  conversion itself.)
\<close>

definition schoolCacheKey :: "jsval \<Rightarrow> string \<Rightarrow> string" where
  "schoolCacheKey leaId q =
    (case ToString (ors [leaId, JStr ''all'']) of Inr s \<Rightarrow> s @ ''-'' @ q | Inl err \<Rightarrow> [])"

text \<open>
  The school effect (lines 94 to 135), run after a render in which one of its dependencies
  changed: the previous cleanup first, then the body. A cache key contains \<open>-\<close>, so the
  lookup in the plain object \<open>schoolCache.current\<close> finds only entries stored there, and
  a stored list is truthy even when empty. When the template literal of the cache key
  raises, the effect ends there and the component crashes; the functions of this section
  describe the mounted component only.
\<close>

definition schoolEffect :: "session \<Rightarrow> session" where
  "schoolEffect st0 =
    (let st = runSchoolCleanup st0;
         q = trim (debouncedSchoolQuery st)
     in if (q = [] \<or> length q < 2) \<and> selectedDistrict st = None
        then st\<lparr>schools := [], selectedSchool := None\<rparr>
        else
          let leaId = (case selectedDistrict st of None \<Rightarrow> JUndefined | Some d \<Rightarrow> d_LEAID d)
          in case ToString (ors [leaId, JStr ''all'']) of
               Inl err \<Rightarrow> st\<lparr>crashed := True\<rparr>
             | Inr s \<Rightarrow>
                 let cacheKey = s @ ''-'' @ q
                 in (case schoolCache st cacheKey of
                       Some cached \<Rightarrow> st\<lparr>schools := cached\<rparr>
                     | None \<Rightarrow>
                         st\<lparr>loadingSchools := True,
                            schoolQueries := schoolQueries st @
                              [\<lparr>q_name = q, q_districtLEAID = leaId, q_cacheKey = cacheKey,
                                q_selectedSchool = selectedSchool st, q_aborted = False,
                                q_settled = False\<rparr>],
                            schoolCleanup := Some (length (schoolQueries st))\<rparr>))"

text \<open>The test of \<open>res.find\<close> in the \<open>.then\<close> callback.\<close>

definition stillExists ::
  "NCESSchoolFeatureAttributes \<Rightarrow> NCESSchoolFeatureAttributes list \<Rightarrow> bool" where
  "stillExists selected res =
    list_ex (\<lambda>s. strict_eq (NCESSCH s) (NCESSCH selected) \<or>
                  (strict_eq (NAME s) (NAME selected) \<and> strict_eq (CITY s) (CITY selected))) res"

text \<open>The \<open>.then\<close> callback of a query (lines 113 to 126).\<close>

definition schoolThen :: "school_query \<Rightarrow> NCESSchoolFeatureAttributes list \<Rightarrow> session \<Rightarrow> session" where
  "schoolThen query res st =
    (let st1 = st\<lparr>schools := res, schoolCache := (schoolCache st)(q_cacheKey query \<mapsto> res)\<rparr>
     in case q_selectedSchool query of
          None \<Rightarrow> st1
        | Some selected \<Rightarrow>
            (if \<not> stillExists selected res then st1\<lparr>selectedSchool := None\<rparr> else st1))"

text \<open>
  The promise of the \<open>i\<close>-th query settles. The fetches of a query whose controller was
  aborted reject with an AbortError; the others get what the network \<open>fetch\<close> delivers.
  Then \<open>.then\<close> or \<open>.catch\<close> runs, and \<open>.finally\<close> after it.
\<close>

definition abortedFetch :: "request \<Rightarrow> fetch_outcome" where
  "abortedFetch r = FetchRejects AbortError"

definition settleSchoolQuery :: "(request \<Rightarrow> fetch_outcome) \<Rightarrow> nat \<Rightarrow> session \<Rightarrow> session" where
  "settleSchoolQuery fetch i st =
    (if length (schoolQueries st) \<le> i \<or> q_settled (schoolQueries st ! i) then st
     else
       let query = schoolQueries st ! i;
           net = (if q_aborted query then abortedFetch else fetch);
           st1 = st\<lparr>schoolQueries := (schoolQueries st)[i := query\<lparr>q_settled := True\<rparr>]\<rparr>
       in (case settled (searchSchools net (q_name query) (q_districtLEAID query)) of
             Fulfilled res \<Rightarrow> schoolThen query res st1
           | Rejected err \<Rightarrow> st1)\<lparr>loadingSchools := False\<rparr>)"

text \<open>\<open>handleDistrictChange\<close> with \<open>e.target.value = leaId\<close> (lines 138 to 156).\<close>

definition handleDistrictChange :: "string \<Rightarrow> session \<Rightarrow> session" where
  "handleDistrictChange leaId st =
    (let match = (if leaId = [] then None
                  else find (\<lambda>d. strict_eq (d_LEAID d) (JStr leaId)) (districts st));
         currentQuery = trim (debouncedSchoolQuery st);
         newCacheKey = schoolCacheKey (JStr leaId) currentQuery
     in st\<lparr>selectedDistrict := match,
           selectedSchool := None,
           schoolCache := (schoolCache st)(newCacheKey := None)\<rparr>)"

text \<open>The debounce timer fires and the debounced school text changes to \<open>text\<close>; the
  render that follows runs the effect.\<close>

definition setDebouncedSchoolQuery :: "string \<Rightarrow> session \<Rightarrow> session" where
  "setDebouncedSchoolQuery text st = schoolEffect (st\<lparr>debouncedSchoolQuery := text\<rparr>)"

section \<open>Vocabulary of the properties\<close>


text \<open>A request was aborted when its fetch, or the reading of its body, rejected with an
  AbortError.\<close>

definition aborted :: "fetch_outcome \<Rightarrow> bool" where
  "aborted res =
    (case res of FetchRejects e \<Rightarrow> e = AbortError | FetchResolves ok b \<Rightarrow> b = JsonRejects AbortError)"

text \<open>A successful response with zero features.\<close>

definition emptyResponse :: fetch_outcome where
  "emptyResponse = FetchResolves True (JsonResolves emptyFeatures)"


section \<open>Example data\<close>

text \<open>A raw feature with an identifier, a name and a fixed city and state, and the record
  the normalizer makes of it.\<close>

definition exampleFeature :: "nat \<Rightarrow> string \<Rightarrow> string \<Rightarrow> jsval" where
  "exampleFeature r ident name =
    JObj r [(''attributes'',
      JObj (Suc r) [(''NCESSCH'', JStr ident), (''NAME'', JStr name),
                    (''CITY'', JStr ''Springfield''), (''STATE'', JStr ''IL'')])]"

definition exampleSchool :: "string \<Rightarrow> string \<Rightarrow> NCESSchoolFeatureAttributes" where
  "exampleSchool ident name =
    \<lparr>NCESSCH = JStr ident, LEAID = JStr [], NAME = JStr name, OPSTFIPS = JUndefined,
     STREET = JStr [], CITY = JStr ''Springfield'', STATE = JStr ''IL'', ZIP = JStr [],
     STFIP = JUndefined, CNTY = JUndefined, NMCNTY = JUndefined, LOCALE = JUndefined,
     LAT = JUndefined, LON = JUndefined, OBJECTID = JUndefined\<rparr>"

text \<open>A successful response whose body has the given features.\<close>

definition respond :: "jsval list \<Rightarrow> fetch_outcome" where
  "respond fs = FetchResolves True (JsonResolves (JObj 0 [(''features'', JArr 0 fs)]))"

definition exampleDistrict :: "string \<Rightarrow> NCESDistrictFeatureAttributes" where
  "exampleDistrict leaId =
    \<lparr>d_OBJECTID = JUndefined, d_LEAID = JStr leaId, d_NAME = JStr (''District '' @ leaId),
     d_OPSTFIPS = JUndefined, d_LSTREE = JStr [], d_LCITY = JStr [], d_LSTATE = JStr [],
     d_LZIP = JStr [], d_LZIP4 = JUndefined, d_STFIP15 = JUndefined, d_CNTY15 = JUndefined,
     d_NMCNTY15 = JUndefined, d_LAT1516 = JUndefined, d_LON1516 = JUndefined, d_ST = JStr []\<rparr>"



definition compareLength :: "string \<Rightarrow> string \<Rightarrow> int" where
  "compareLength a b = int (length a) - int (length b)"


text \<open>A session with the debounced school text \<open>ab\<close>, one district in the list, no district
  selected, and cached school lists for that text without filter and under the district.\<close>

definition cachedSession :: session where
  "cachedSession =
    initialSession\<lparr>debouncedSchoolQuery := ''ab'',
      districts := [exampleDistrict ''D1''],
      schoolCache := [''all-ab'' \<mapsto> [exampleSchool ''111'' ''Lincoln High''],
                      ''D1-ab'' \<mapsto> [exampleSchool ''222'' ''Washington'']]\<rparr>"

text \<open>A session in which a school list is shown and a school is selected, with the short
  debounced text \<open>a\<close> and no district selected.\<close>

definition listedSession :: session where
  "listedSession =
    initialSession\<lparr>debouncedSchoolQuery := ''a '',
      schools := [exampleSchool ''111'' ''Lincoln High''],
      selectedSchool := Some (exampleSchool ''111'' ''Lincoln High'')\<rparr>"

text \<open>A network on which both sources answer every request with the same school.\<close>

definition lincolnNetwork :: "request \<Rightarrow> fetch_outcome" where
  "lincolnNetwork r = respond [exampleFeature 1 ''111'' ''Lincoln High'']"

definition washingtonNetwork :: "request \<Rightarrow> fetch_outcome" where
  "washingtonNetwork r = respond [exampleFeature 1 ''9'' ''Washington'']"

text \<open>A network on which the private source answers with \<open>pf\<close> and the public one with
  \<open>qf\<close>.\<close>

definition twoSources :: "jsval list \<Rightarrow> jsval list \<Rightarrow> request \<Rightarrow> fetch_outcome" where
  "twoSources pf qf r = (if endpoint r = PrivateSchools then respond pf else respond qf)"

text \<open>
  The user types \<open>Lincoln\<close> and the query completes; the text is then shortened to \<open>Linc\<close>,
  which issues a second query, and restored to \<open>Lincoln\<close> while that query is in flight:
  the second query is aborted and the list for \<open>Lincoln\<close> is served from the cache.
\<close>

definition retypedSession :: session where
  "retypedSession =
    setDebouncedSchoolQuery ''Lincoln''
      (setDebouncedSchoolQuery ''Linc''
        (settleSchoolQuery lincolnNetwork 0
          (setDebouncedSchoolQuery ''Lincoln'' initialSession)))"

section \<open>Properties of the normalizer\<close>









text \<open>
  C8, as stated, fails: with a latitude in the attributes, no longitude, and a geometry
  point, the latitude of the attributes is replaced by the point's \<open>y\<close>.
\<close>

theorem geometry_overwrites_latitude_counterexample:
  "map_sum id LAT (normalizeSchoolAttributes (JObj 1 [(''LAT'', JNum 10)])
      (JObj 2 [(''x'', JNum 5), (''y'', JNum 7)])) = Inr (JNum 7) \<and>
   map_sum id LON (normalizeSchoolAttributes (JObj 1 [(''LAT'', JNum 10)])
      (JObj 2 [(''x'', JNum 5), (''y'', JNum 7)])) = Inr (JNum 5)"
  by (simp add: normalizeSchoolAttributes_def)

text \<open>
  C8, amended: latitude and longitude are resolved from the attribute fields first. When
  both are found (truthy), or no geometry is supplied, they are the result. When either is
  still absent and a geometry is supplied, each coordinate is the geometry point's \<open>y\<close>
  (respectively \<open>x\<close>) if that is truthy, and the attribute value otherwise.
\<close>

theorem coordinates_resolution:
  assumes "\<not> nullish a"
    and "lat0 = ors [get a ''LAT'', get a ''Y'', get a ''lat'', get a ''latitude'']"
    and "lon0 = ors [get a ''LON'', get a ''X'', get a ''lon'', get a ''longitude'']"
  shows "\<exists>r. normalizeSchoolAttributes a geometry = Inr r \<and>
           (truthy lat0 \<and> truthy lon0 \<longrightarrow> LAT r = lat0 \<and> LON r = lon0) \<and>
           (\<not> truthy geometry \<longrightarrow> LAT r = lat0 \<and> LON r = lon0) \<and>
           ((\<not> truthy lat0 \<or> \<not> truthy lon0) \<and> truthy geometry \<longrightarrow>
              LAT r = (if truthy (get geometry ''y'') then get geometry ''y'' else lat0) \<and>
              LON r = (if truthy (get geometry ''x'') then get geometry ''x'' else lon0))"
  using assms by (simp add: normalizeSchoolAttributes_def Let_def)

theorem coordinates_resolution_witness:
  "\<exists>r. normalizeSchoolAttributes (JObj 1 [(''LAT'', JNum 10), (''X'', JNum 20)])
          (JObj 2 [(''x'', JNum 5), (''y'', JNum 7)]) = Inr r \<and>
       LAT r = JNum 10 \<and> LON r = JNum 20"
  using coordinates_resolution [of "JObj 1 [(''LAT'', JNum 10), (''X'', JNum 20)]"
      "JNum 10" "JNum 20" "JObj 2 [(''x'', JNum 5), (''y'', JNum 7)]"]
  by simp

text \<open>
  C9, the code at the failing input: a raw record that carries its district identifier in
  \<open>LEA_ID\<close> and has no name field is normalized to the identifier \<open>0601234\<close> and the name
  \<open>District Unknown\<close>, a label without the identifier.
\<close>

theorem district_label_misses_identifier:
  "map_sum id d_LEAID (normalizeDistrictAttributes (JObj 1 [(''LEA_ID'', JStr ''0601234'')])) =
     Inr (JStr ''0601234'') \<and>
   map_sum id d_NAME (normalizeDistrictAttributes (JObj 1 [(''LEA_ID'', JStr ''0601234'')])) =
     Inr (JStr ''District Unknown'')"
  by (simp add: normalizeDistrictAttributes_def)

section \<open>Properties of the query executor\<close>


lemma awaitJson_emptyResponse: "awaitJson emptyResponse = Inr emptyFeatures"
  by (simp add: emptyResponse_def awaitJson_def)

lemma featuresOf_emptyFeatures: "featuresOf emptyFeatures = Inr []"
  by (simp add: featuresOf_def emptyFeatures_def)





lemma searchSchools_settled:
  "settled (searchSchools fetch name lea) =
     (case schoolWhereClause name lea of
        Inl err \<Rightarrow> Fulfilled []
      | Inr clause \<Rightarrow>
          (case schoolsFrom
             (fetch \<lparr>endpoint = PrivateSchools, whereClause = clause, resultRecordCount = 100\<rparr>)
             (fetch \<lparr>endpoint = PublicSchools, whereClause = clause, resultRecordCount = 100\<rparr>)
           of Inr unique \<Rightarrow> Fulfilled unique | Inl err \<Rightarrow> Fulfilled []))"
  by (simp add: searchSchools_def Let_def split: sum.splits)

lemma searchSchools_requests:
  "requests (searchSchools fetch name lea) =
     (case schoolWhereClause name lea of
        Inl err \<Rightarrow> []
      | Inr clause \<Rightarrow>
          [\<lparr>endpoint = PrivateSchools, whereClause = clause, resultRecordCount = 100\<rparr>,
           \<lparr>endpoint = PublicSchools, whereClause = clause, resultRecordCount = 100\<rparr>])"
  by (simp add: searchSchools_def Let_def split: sum.splits)

lemma searchSchoolDistricts_settled:
  "settled (searchSchoolDistricts lc fetch name) =
     (if name = [] \<or> length (trim name) < 2 then Fulfilled []
      else case districtsFrom lc
        (fetch \<lparr>endpoint = PrivateSchools, whereClause = districtWhereClause name, resultRecordCount = 500\<rparr>)
        (fetch \<lparr>endpoint = PublicSchools, whereClause = districtWhereClause name, resultRecordCount = 500\<rparr>)
      of Inr ds \<Rightarrow> Fulfilled ds | Inl err \<Rightarrow> Fulfilled [])"
  by (simp add: searchSchoolDistricts_def Let_def split: sum.splits)

lemma searchSchools_resolves: "\<exists>v. settled (searchSchools fetch name lea) = Fulfilled v"
  by (simp add: searchSchools_settled split: sum.splits)

lemma searchSchoolDistricts_resolves: "\<exists>v. settled (searchSchoolDistricts lc fetch name) = Fulfilled v"
  by (simp add: searchSchoolDistricts_settled split: sum.splits)





lemma trim_Nil: "trim [] = []"
  by (simp add: trim_def)


lemma sortBy_Nil: "sortBy cmp [] = Inr []"
  by (simp add: sortBy_def)




lemma aborted_cases:
  "aborted p \<Longrightarrow> awaitJson p = Inr emptyFeatures \<or> awaitJson p = Inl AbortError"
  by (auto simp: aborted_def awaitJson_def split: fetch_outcome.splits)

lemma schoolsFrom_aborted:
  "aborted p \<Longrightarrow> aborted q \<Longrightarrow> schoolsFrom p q = Inr [] \<or> schoolsFrom p q = Inl AbortError"
  using aborted_cases [of p] aborted_cases [of q]
  by (auto simp: schoolsFrom_def featuresOf_emptyFeatures dedupSchools_def filterIndexed_def)

lemma districtsFrom_aborted:
  "aborted p \<Longrightarrow> aborted q \<Longrightarrow> districtsFrom lc p q = Inr [] \<or> districtsFrom lc p q = Inl AbortError"
  using aborted_cases [of p] aborted_cases [of q]
  by (auto simp: districtsFrom_def featuresOf_emptyFeatures sortBy_Nil)

lemma searchSchools_aborted:
  assumes "\<forall>r. aborted (fetch r)"
  shows "settled (searchSchools fetch name lea) = Fulfilled []"
proof (cases "schoolWhereClause name lea")
  case (Inl err)
  then show ?thesis
    by (simp add: searchSchools_settled)
next
  case (Inr clause)
  with schoolsFrom_aborted [of
      "fetch \<lparr>endpoint = PrivateSchools, whereClause = clause, resultRecordCount = 100\<rparr>"
      "fetch \<lparr>endpoint = PublicSchools, whereClause = clause, resultRecordCount = 100\<rparr>"]
    assms
  show ?thesis
    by (auto simp: searchSchools_settled)
qed

lemma searchSchoolDistricts_aborted:
  assumes "\<forall>r. aborted (fetch r)"
  shows "settled (searchSchoolDistricts lc fetch name) = Fulfilled []"
  using districtsFrom_aborted [of
      "fetch \<lparr>endpoint = PrivateSchools, whereClause = districtWhereClause name, resultRecordCount = 500\<rparr>"
      "fetch \<lparr>endpoint = PublicSchools, whereClause = districtWhereClause name, resultRecordCount = 500\<rparr>" lc]
    assms
  by (auto simp: searchSchoolDistricts_settled)

lemma searchSchools_empty: "settled (searchSchools (\<lambda>r. emptyResponse) name lea) = Fulfilled []"
  by (simp add: searchSchools_settled schoolsFrom_def awaitJson_emptyResponse
      featuresOf_emptyFeatures dedupSchools_def filterIndexed_def split: sum.splits)

lemma searchSchoolDistricts_empty:
  "settled (searchSchoolDistricts lc (\<lambda>r. emptyResponse) name) = Fulfilled []"
  by (simp add: searchSchoolDistricts_settled districtsFrom_def awaitJson_emptyResponse
      featuresOf_emptyFeatures sortBy_Nil)

lemma runSchoolCleanup_fields:
  "debouncedSchoolQuery (runSchoolCleanup st) = debouncedSchoolQuery st"
  "selectedDistrict (runSchoolCleanup st) = selectedDistrict st"
  "selectedSchool (runSchoolCleanup st) = selectedSchool st"
  "schoolCache (runSchoolCleanup st) = schoolCache st"
  "schools (runSchoolCleanup st) = schools st"
  "length (schoolQueries (runSchoolCleanup st)) = length (schoolQueries st)"
  by (simp_all add: runSchoolCleanup_def split: option.splits)

lemma schoolEffect_guard:
  assumes "length (trim (debouncedSchoolQuery st)) < 2" and "selectedDistrict st = None"
  shows "schools (schoolEffect st) = [] \<and> selectedSchool (schoolEffect st) = None \<and>
         length (schoolQueries (schoolEffect st)) = length (schoolQueries st)"
  using assms by (simp add: schoolEffect_def Let_def runSchoolCleanup_fields)

lemma schoolWhereClause_short:
  "length (trim name) < 2 \<Longrightarrow> schoolWhereClause name JUndefined = Inr ''1=1''"
  by (simp add: schoolWhereClause_def Let_def)

lemma searchSchools_both_respond:
  "settled (searchSchools (twoSources pf qf) name lea) =
     (case schoolWhereClause name lea of
        Inl err \<Rightarrow> Fulfilled []
      | Inr clause \<Rightarrow>
          (case map_err normalizeFeature (pf @ qf) of
             Inr normalized \<Rightarrow> Fulfilled (dedupSchools normalized)
           | Inl err \<Rightarrow> Fulfilled []))"
  by (simp add: searchSchools_settled schoolsFrom_def twoSources_def respond_def awaitJson_def
      featuresOf_def split: sum.splits)

lemma normalizeFeature_example:
  "normalizeFeature (exampleFeature r ident name) = Inr (exampleSchool ident name)"
  by (simp add: normalizeFeature_def exampleFeature_def exampleSchool_def
      normalizeSchoolAttributes_def)


lemma dedupSchools_twice_example:
  "dedupSchools [exampleSchool ident name, exampleSchool ident name] = [exampleSchool ident name]"
  by (simp add: dedupSchools_def filterIndexed_def dedupKeep_def findIndex_def exampleSchool_def
      upt_rec)

lemma schoolsFrom_same_feature:
  "schoolsFrom (respond [exampleFeature k ident name]) (respond [exampleFeature k ident name]) =
     Inr [exampleSchool ident name]"
  by (simp add: schoolsFrom_def respond_def awaitJson_def featuresOf_def normalizeFeature_example
      dedupSchools_twice_example)




text \<open>
  C3, as stated, fails for \<open>searchSchools\<close>: with the empty text and no district filter it
  issues its two requests and returns what they deliver.
\<close>

theorem searchSchools_short_query_counterexample:
  "length (trim []) < 2 \<and>
   requests (searchSchools lincolnNetwork [] JUndefined) \<noteq> [] \<and>
   settled (searchSchools lincolnNetwork [] JUndefined) \<noteq> Fulfilled []"
  by (simp add: searchSchools_requests searchSchools_settled schoolWhereClause_short trim_Nil
      lincolnNetwork_def schoolsFrom_same_feature)

text \<open>
  C3, amended: for every query whose trimmed text is shorter than 2, \<open>searchSchoolDistricts\<close>
  returns the empty list without a network call (and without logging); \<open>searchSchools\<close>
  without a district filter issues both requests with the unfiltered clause \<open>1=1\<close> and
  returns what they deliver: the normalized, deduplicated features of the two responses,
  and the empty list only when reading them raises; the empty school list without a
  network call is the work of the controller's school effect, which, with no district
  selected, clears the list and the selection and issues no query.
\<close>

theorem short_query_behaviour:
  assumes "length (trim name) < 2"
  shows "searchSchoolDistricts lc fetch name = \<lparr>requests = [], logged = [], settled = Fulfilled []\<rparr> \<and>
         requests (searchSchools fetch name JUndefined) =
           [\<lparr>endpoint = PrivateSchools, whereClause = ''1=1'', resultRecordCount = 100\<rparr>,
            \<lparr>endpoint = PublicSchools, whereClause = ''1=1'', resultRecordCount = 100\<rparr>] \<and>
         settled (searchSchools fetch name JUndefined) =
           (case schoolsFrom
              (fetch \<lparr>endpoint = PrivateSchools, whereClause = ''1=1'', resultRecordCount = 100\<rparr>)
              (fetch \<lparr>endpoint = PublicSchools, whereClause = ''1=1'', resultRecordCount = 100\<rparr>)
            of Inr unique \<Rightarrow> Fulfilled unique | Inl err \<Rightarrow> Fulfilled []) \<and>
         settled (searchSchools (twoSources pf qf) name JUndefined) =
           (case map_err normalizeFeature (pf @ qf) of
              Inr normalized \<Rightarrow> Fulfilled (dedupSchools normalized)
            | Inl err \<Rightarrow> Fulfilled []) \<and>
         (debouncedSchoolQuery st = name \<and> selectedDistrict st = None \<longrightarrow>
            schools (schoolEffect st) = [] \<and> selectedSchool (schoolEffect st) = None \<and>
            length (schoolQueries (schoolEffect st)) = length (schoolQueries st))"
proof (intro conjI impI)
  show "searchSchoolDistricts lc fetch name = \<lparr>requests = [], logged = [], settled = Fulfilled []\<rparr>"
    using assms by (simp add: searchSchoolDistricts_def)
  show "requests (searchSchools fetch name JUndefined) =
      [\<lparr>endpoint = PrivateSchools, whereClause = ''1=1'', resultRecordCount = 100\<rparr>,
       \<lparr>endpoint = PublicSchools, whereClause = ''1=1'', resultRecordCount = 100\<rparr>]"
    using assms by (simp add: searchSchools_requests schoolWhereClause_short)
  show "settled (searchSchools fetch name JUndefined) =
      (case schoolsFrom
         (fetch \<lparr>endpoint = PrivateSchools, whereClause = ''1=1'', resultRecordCount = 100\<rparr>)
         (fetch \<lparr>endpoint = PublicSchools, whereClause = ''1=1'', resultRecordCount = 100\<rparr>)
       of Inr unique \<Rightarrow> Fulfilled unique | Inl err \<Rightarrow> Fulfilled [])"
    using assms by (simp add: searchSchools_settled schoolWhereClause_short)
  show "settled (searchSchools (twoSources pf qf) name JUndefined) =
      (case map_err normalizeFeature (pf @ qf) of
         Inr normalized \<Rightarrow> Fulfilled (dedupSchools normalized)
       | Inl err \<Rightarrow> Fulfilled [])"
    using assms by (simp add: searchSchools_both_respond schoolWhereClause_short)
next
  assume "debouncedSchoolQuery st = name \<and> selectedDistrict st = None"
  with assms schoolEffect_guard [of st]
  show "schools (schoolEffect st) = []" and "selectedSchool (schoolEffect st) = None"
    and "length (schoolQueries (schoolEffect st)) = length (schoolQueries st)"
    by simp_all
qed

theorem short_query_behaviour_witness:
  "length (trim ''a '') < 2 \<and>
   searchSchoolDistricts compareLength lincolnNetwork ''a '' =
     \<lparr>requests = [], logged = [], settled = Fulfilled []\<rparr> \<and>
   settled (searchSchools lincolnNetwork ''a '' JUndefined) =
     Fulfilled [exampleSchool ''111'' ''Lincoln High''] \<and>
   schools listedSession = [exampleSchool ''111'' ''Lincoln High''] \<and>
   selectedSchool listedSession = Some (exampleSchool ''111'' ''Lincoln High'') \<and>
   schools (schoolEffect listedSession) = [] \<and>
   selectedSchool (schoolEffect listedSession) = None"
proof -
  have short: "length (trim ''a '') < 2"
    by (simp add: trim_def isSpace_def)
  have st: "debouncedSchoolQuery listedSession = ''a '' \<and> selectedDistrict listedSession = None"
    by (simp add: listedSession_def initialSession_def)
  from short_query_behaviour [OF short, of compareLength lincolnNetwork _ _ listedSession] st
  have "searchSchoolDistricts compareLength lincolnNetwork ''a '' =
      \<lparr>requests = [], logged = [], settled = Fulfilled []\<rparr>"
    and "settled (searchSchools lincolnNetwork ''a '' JUndefined) =
      Fulfilled [exampleSchool ''111'' ''Lincoln High'']"
    and "schools (schoolEffect listedSession) = []"
    and "selectedSchool (schoolEffect listedSession) = None"
    by (simp_all add: lincolnNetwork_def schoolsFrom_same_feature)
  with short show ?thesis
    by (simp add: listedSession_def initialSession_def)
qed



text \<open>
  C10: for every input and every outcome of the fetches, the promises of \<open>searchSchools\<close>
  and \<open>searchSchoolDistricts\<close> are fulfilled with a list, never rejected. When the
  requests were aborted (each fetch, or the reading of its body, rejected with an
  AbortError) the list is empty, the same value as for two successful responses without
  features.
\<close>

theorem search_always_resolves:
  "(\<exists>v. settled (searchSchools fetch name lea) = Fulfilled v) \<and>
   (\<exists>v. settled (searchSchoolDistricts lc fetch name) = Fulfilled v) \<and>
   ((\<forall>r. aborted (fetch r)) \<longrightarrow>
      settled (searchSchools fetch name lea) = Fulfilled [] \<and>
      settled (searchSchoolDistricts lc fetch name) = Fulfilled [] \<and>
      settled (searchSchools fetch name lea) =
        settled (searchSchools (\<lambda>r. emptyResponse) name lea) \<and>
      settled (searchSchoolDistricts lc fetch name) =
        settled (searchSchoolDistricts lc (\<lambda>r. emptyResponse) name))"
  using searchSchools_resolves [of fetch name lea] searchSchoolDistricts_resolves [of lc fetch name]
    searchSchools_aborted [of fetch name lea] searchSchoolDistricts_aborted [of fetch lc name]
  by (simp add: searchSchools_empty searchSchoolDistricts_empty)

theorem search_always_resolves_witness:
  "aborted (FetchRejects AbortError) \<and>
   settled (searchSchools abortedFetch ''Lincoln'' JUndefined) = Fulfilled [] \<and>
   settled (searchSchoolDistricts (\<lambda>a b. 0) abortedFetch ''Ogden'') = Fulfilled []"
  using search_always_resolves [of abortedFetch "''Lincoln''" JUndefined "\<lambda>a b. 0"]
    search_always_resolves [of abortedFetch "''Ogden''" JUndefined "\<lambda>a b. 0"]
  by (simp add: aborted_def abortedFetch_def)

section \<open>Properties of the deduplicator\<close>

lemma strict_eq_sym: "strict_eq a b = strict_eq b a"
  by (induction a b rule: strict_eq.induct) auto

lemma strict_eq_trans: "strict_eq a b \<Longrightarrow> strict_eq b c \<Longrightarrow> strict_eq a c"
  by (cases a; cases b; cases c) auto

lemma strict_eq_refl: "truthy a \<Longrightarrow> strict_eq a a"
  by (cases a) auto

lemma strict_eq_truthy: "strict_eq a b \<Longrightarrow> truthy a = truthy b"
  by (cases a; cases b) auto

lemma findIndex_le:
  assumes "i < length xs" and "P (xs ! i)"
  shows "findIndex P xs \<le> int i"
proof -
  have ex: "list_ex P xs"
    using assms by (auto simp: list_ex_iff)
  have "length (takeWhile (\<lambda>x. \<not> P x) xs) \<le> i"
  proof (rule ccontr)
    assume "\<not> length (takeWhile (\<lambda>x. \<not> P x) xs) \<le> i"
    then have lt: "i < length (takeWhile (\<lambda>x. \<not> P x) xs)"
      by simp
    then have "takeWhile (\<lambda>x. \<not> P x) xs ! i = xs ! i"
      by (rule takeWhile_nth)
    moreover have "takeWhile (\<lambda>x. \<not> P x) xs ! i \<in> set (takeWhile (\<lambda>x. \<not> P x) xs)"
      using lt by simp
    ultimately have "\<not> P (xs ! i)"
      by (metis set_takeWhileD)
    with assms show False by simp
  qed
  with ex show ?thesis
    by (simp add: findIndex_def)
qed

lemma findIndex_first:
  assumes "x \<in> set xs" and "P x"
  shows "\<exists>k < length xs. findIndex P xs = int k \<and> P (xs ! k)"
proof -
  let ?k = "length (takeWhile (\<lambda>x. \<not> P x) xs)"
  have ex: "list_ex P xs"
    using assms by (auto simp: list_ex_iff)
  have "takeWhile (\<lambda>x. \<not> P x) xs \<noteq> xs"
    using assms by auto
  moreover have "takeWhile (\<lambda>x. \<not> P x) xs = take ?k xs"
    by (rule takeWhile_eq_take)
  ultimately have "?k \<noteq> length xs"
    by auto
  then have lt: "?k < length xs"
    using length_takeWhile_le [of "\<lambda>x. \<not> P x" xs] by simp
  have "P (xs ! ?k)"
    using nth_length_takeWhile [OF lt] by simp
  with ex lt show ?thesis
    by (auto simp: findIndex_def)
qed

lemma filterIndexed_sorted_wrt:
  assumes "\<And>i j. i < j \<Longrightarrow> j < length self \<Longrightarrow> p (self ! i) i self \<Longrightarrow> p (self ! j) j self
             \<Longrightarrow> Q (self ! i) (self ! j)"
  shows "sorted_wrt Q (filterIndexed p self)"
proof -
  let ?ps = "zip self [0..<length self]"
  let ?kept = "filter (\<lambda>(x, i). p x i self) ?ps"
  have "sorted_wrt (<) (map snd ?ps)"
    by simp
  then have "sorted_wrt (\<lambda>a b. snd a < snd b) ?ps"
    by (simp only: sorted_wrt_map)
  then have "sorted_wrt (\<lambda>a b. snd a < snd b) ?kept"
    by (rule sorted_wrt_filter)
  moreover have "Q (fst a) (fst b)"
    if "a \<in> set ?kept" and "b \<in> set ?kept" and "snd a < snd b" for a b
  proof -
    obtain x i where a: "a = (x, i)" by (cases a)
    obtain y j where b: "b = (y, j)" by (cases b)
    from that(1) a have "i < length self" "x = self ! i" "p x i self"
      by (auto simp: in_set_zip)
    moreover from that(2) b have "j < length self" "y = self ! j" "p y j self"
      by (auto simp: in_set_zip)
    ultimately show ?thesis
      using assms [of i j] that(3) a b by simp
  qed
  ultimately have "sorted_wrt (\<lambda>a b. Q (fst a) (fst b)) ?kept"
    by (rule sorted_wrt_mono_rel [rotated])
  then show ?thesis
    by (simp add: filterIndexed_def sorted_wrt_map)
qed

lemma filterIndexed_subseq: "subseq (filterIndexed p self) self"
proof -
  have "subseq (map fst (filter (\<lambda>(x, i). p x i self) (zip self [0..<length self])))
          (map fst (zip self [0..<length self]))"
    by (intro subseq_map subseq_filter_left)
  then show ?thesis
    by (simp add: filterIndexed_def)
qed

lemma filterIndexed_member:
  assumes "i < length self" and "p (self ! i) i self"
  shows "self ! i \<in> set (filterIndexed p self)"
proof -
  have "(self ! i, i) \<in> set (zip self [0..<length self])"
    using assms(1) by (auto simp: in_set_zip)
  with assms(2) have "(self ! i, i) \<in> set (filter (\<lambda>(x, i). p x i self) (zip self [0..<length self]))"
    by simp
  then have "fst (self ! i, i) \<in> set (filterIndexed p self)"
    unfolding filterIndexed_def set_map by (rule imageI)
  then show ?thesis by simp
qed

lemma sorted_wrt_filter_le1:
  "sorted_wrt (\<lambda>x y. \<not> (P x \<and> P y)) xs \<Longrightarrow> length (filter P xs) \<le> 1"
  by (induction xs) (auto simp: filter_empty_conv)

lemma dedupSchools_no_shared_identifier:
  "sorted_wrt (\<lambda>x y. \<not> (truthy (NCESSCH x) \<and> strict_eq (NCESSCH x) (NCESSCH y)))
     (dedupSchools normalized)"
  unfolding dedupSchools_def
proof (rule filterIndexed_sorted_wrt)
  fix i j
  assume ij: "i < j" and j: "j < length normalized"
    and kj: "dedupKeep (normalized ! j) j normalized"
  show "\<not> (truthy (NCESSCH (normalized ! i)) \<and>
            strict_eq (NCESSCH (normalized ! i)) (NCESSCH (normalized ! j)))"
  proof
    assume a: "truthy (NCESSCH (normalized ! i)) \<and>
               strict_eq (NCESSCH (normalized ! i)) (NCESSCH (normalized ! j))"
    then have "truthy (NCESSCH (normalized ! j))"
      using strict_eq_truthy by blast
    with kj have "findIndex (\<lambda>s. strict_eq (NCESSCH s) (NCESSCH (normalized ! j))) normalized = int j"
      by (simp add: dedupKeep_def)
    moreover have "findIndex (\<lambda>s. strict_eq (NCESSCH s) (NCESSCH (normalized ! j))) normalized \<le> int i"
      using ij j a by (intro findIndex_le) auto
    ultimately show False
      using ij by simp
  qed
qed

lemma dedupSchools_no_shared_name_city_state:
  "sorted_wrt (\<lambda>x y. \<not> (\<not> truthy (NCESSCH y) \<and> strict_eq (NAME x) (NAME y) \<and>
                          strict_eq (CITY x) (CITY y) \<and> strict_eq (STATE x) (STATE y)))
     (dedupSchools normalized)"
  unfolding dedupSchools_def
proof (rule filterIndexed_sorted_wrt)
  fix i j
  assume ij: "i < j" and j: "j < length normalized"
    and kj: "dedupKeep (normalized ! j) j normalized"
  let ?x = "normalized ! i" and ?y = "normalized ! j"
  show "\<not> (\<not> truthy (NCESSCH ?y) \<and> strict_eq (NAME ?x) (NAME ?y) \<and>
            strict_eq (CITY ?x) (CITY ?y) \<and> strict_eq (STATE ?x) (STATE ?y))"
  proof
    assume a: "\<not> truthy (NCESSCH ?y) \<and> strict_eq (NAME ?x) (NAME ?y) \<and>
               strict_eq (CITY ?x) (CITY ?y) \<and> strict_eq (STATE ?x) (STATE ?y)"
    let ?P = "\<lambda>s. strict_eq (NAME s) (NAME ?y) \<and> strict_eq (CITY s) (CITY ?y) \<and>
                   strict_eq (STATE s) (STATE ?y)"
    from kj a have "findIndex ?P normalized = int j"
      by (simp add: dedupKeep_def)
    moreover have "findIndex ?P normalized \<le> int i"
      using ij j a by (intro findIndex_le) auto
    ultimately show False
      using ij by simp
  qed
qed

lemma dedupSchools_keeps_identifier:
  assumes "x \<in> set normalized" and "truthy (NCESSCH x)"
  shows "\<exists>y \<in> set (dedupSchools normalized). strict_eq (NCESSCH y) (NCESSCH x)"
proof -
  let ?P = "\<lambda>s. strict_eq (NCESSCH s) (NCESSCH x)"
  have "?P x"
    using assms(2) by (rule strict_eq_refl)
  with assms(1) obtain k where k: "k < length normalized" "findIndex ?P normalized = int k"
    "?P (normalized ! k)"
    using findIndex_first [of x normalized ?P] by blast
  let ?y = "normalized ! k"
  have same: "(\<lambda>s. strict_eq (NCESSCH s) (NCESSCH ?y)) = ?P"
  proof
    fix s
    show "strict_eq (NCESSCH s) (NCESSCH ?y) = strict_eq (NCESSCH s) (NCESSCH x)"
      using k(3) strict_eq_trans strict_eq_sym by blast
  qed
  have "truthy (NCESSCH ?y)"
    using k(3) assms(2) strict_eq_truthy by blast
  then have "dedupKeep ?y k normalized"
    using k(2) by (simp add: dedupKeep_def same)
  then have "?y \<in> set (dedupSchools normalized)"
    unfolding dedupSchools_def using k(1) by (intro filterIndexed_member)
  with k(3) show ?thesis
    by blast
qed

lemma dedupSchools_one_per_identifier:
  assumes "x \<in> set normalized" and "truthy (NCESSCH x)"
  shows "length (filter (\<lambda>s. strict_eq (NCESSCH s) (NCESSCH x)) (dedupSchools normalized)) = 1"
proof -
  let ?P = "\<lambda>s. strict_eq (NCESSCH s) (NCESSCH x)"
  have "sorted_wrt (\<lambda>a b. \<not> (?P a \<and> ?P b)) (dedupSchools normalized)"
  proof (rule sorted_wrt_mono_rel [OF _ dedupSchools_no_shared_identifier])
    fix a b
    assume "\<not> (truthy (NCESSCH a) \<and> strict_eq (NCESSCH a) (NCESSCH b))"
    then show "\<not> (?P a \<and> ?P b)"
      using assms(2) strict_eq_truthy strict_eq_trans strict_eq_sym by blast
  qed
  then have "length (filter ?P (dedupSchools normalized)) \<le> 1"
    by (rule sorted_wrt_filter_le1)
  moreover have "filter ?P (dedupSchools normalized) \<noteq> []"
    using dedupSchools_keeps_identifier [OF assms] by (simp add: filter_empty_conv)
  ultimately show ?thesis
    by (cases "filter ?P (dedupSchools normalized)") auto
qed

text \<open>
  C2, as stated, fails: a record without identifier that comes first and a later record
  with an identifier are both kept although name, city and state are identical.
\<close>

theorem dedup_first_without_identifier_counterexample:
  "settled (searchSchools
      (twoSources [exampleFeature 1 [] ''Lincoln High''] [exampleFeature 3 ''111'' ''Lincoln High''])
      ''Lincoln'' JUndefined) =
     Fulfilled [exampleSchool [] ''Lincoln High'', exampleSchool ''111'' ''Lincoln High''] \<and>
   \<not> truthy (NCESSCH (exampleSchool [] ''Lincoln High'')) \<and>
   NAME (exampleSchool [] ''Lincoln High'') = NAME (exampleSchool ''111'' ''Lincoln High'') \<and>
   CITY (exampleSchool [] ''Lincoln High'') = CITY (exampleSchool ''111'' ''Lincoln High'') \<and>
   STATE (exampleSchool [] ''Lincoln High'') = STATE (exampleSchool ''111'' ''Lincoln High'')"
  by (simp add: searchSchools_both_respond schoolWhereClause_def Let_def normalizeFeature_example)
    (simp add: dedupSchools_def filterIndexed_def dedupKeep_def findIndex_def exampleSchool_def)

text \<open>
  C2, amended: the deduplicated output of \<open>searchSchools\<close> is a subsequence of the
  normalized merged list (first-seen order); no two of its records share a non-empty
  identifier; no record without identifier has the name, city and state of a record
  before it; and an identifier that occurs in the merged list, however often and from
  whichever source, occurs on exactly one record of the output. When both sources answer,
  the value of \<open>searchSchools\<close> is this output for the private features followed by the
  public ones (and the empty list when the where clause or a feature raises).
\<close>

theorem dedupSchools_properties:
  assumes "unique = dedupSchools normalized"
  shows "subseq unique normalized \<and>
         (\<forall>i j. i < j \<and> j < length unique \<longrightarrow>
            \<not> (truthy (NCESSCH (unique ! i)) \<and>
               strict_eq (NCESSCH (unique ! i)) (NCESSCH (unique ! j)))) \<and>
         (\<forall>i j. i < j \<and> j < length unique \<and> \<not> truthy (NCESSCH (unique ! j)) \<longrightarrow>
            \<not> (strict_eq (NAME (unique ! i)) (NAME (unique ! j)) \<and>
               strict_eq (CITY (unique ! i)) (CITY (unique ! j)) \<and>
               strict_eq (STATE (unique ! i)) (STATE (unique ! j)))) \<and>
         (\<forall>x \<in> set normalized. truthy (NCESSCH x) \<longrightarrow>
            length (filter (\<lambda>s. strict_eq (NCESSCH s) (NCESSCH x)) unique) = 1) \<and>
         settled (searchSchools (twoSources pf qf) name lea) =
           (case schoolWhereClause name lea of
              Inl err \<Rightarrow> Fulfilled []
            | Inr clause \<Rightarrow>
                (case map_err normalizeFeature (pf @ qf) of
                   Inr normalized \<Rightarrow> Fulfilled (dedupSchools normalized)
                 | Inl err \<Rightarrow> Fulfilled []))"
proof (intro conjI allI impI ballI)
  show "subseq unique normalized"
    by (simp add: assms dedupSchools_def filterIndexed_subseq)
next
  fix i j
  assume "i < j \<and> j < length unique"
  then show "\<not> (truthy (NCESSCH (unique ! i)) \<and>
                 strict_eq (NCESSCH (unique ! i)) (NCESSCH (unique ! j)))"
    using dedupSchools_no_shared_identifier [of normalized]
    by (simp add: assms sorted_wrt_iff_nth_less)
next
  fix i j
  assume "i < j \<and> j < length unique \<and> \<not> truthy (NCESSCH (unique ! j))"
  then show "\<not> (strict_eq (NAME (unique ! i)) (NAME (unique ! j)) \<and>
                 strict_eq (CITY (unique ! i)) (CITY (unique ! j)) \<and>
                 strict_eq (STATE (unique ! i)) (STATE (unique ! j)))"
    using dedupSchools_no_shared_name_city_state [of normalized]
    unfolding assms sorted_wrt_iff_nth_less by blast
next
  fix x
  assume "x \<in> set normalized" and "truthy (NCESSCH x)"
  then show "length (filter (\<lambda>s. strict_eq (NCESSCH s) (NCESSCH x)) unique) = 1"
    unfolding assms by (rule dedupSchools_one_per_identifier)
next
  show "settled (searchSchools (twoSources pf qf) name lea) =
           (case schoolWhereClause name lea of
              Inl err \<Rightarrow> Fulfilled []
            | Inr clause \<Rightarrow>
                (case map_err normalizeFeature (pf @ qf) of
                   Inr normalized \<Rightarrow> Fulfilled (dedupSchools normalized)
                 | Inl err \<Rightarrow> Fulfilled []))"
    by (rule searchSchools_both_respond)
qed

theorem dedupSchools_properties_witness:
  "[exampleSchool ''111'' ''Lincoln High'', exampleSchool [] ''Washington''] =
     dedupSchools [exampleSchool ''111'' ''Lincoln High'', exampleSchool ''111'' ''Lincoln HS'',
                   exampleSchool [] ''Washington'', exampleSchool [] ''Washington''] \<and>
   exampleSchool ''111'' ''Lincoln HS'' \<in>
     set [exampleSchool ''111'' ''Lincoln High'', exampleSchool ''111'' ''Lincoln HS'',
          exampleSchool [] ''Washington'', exampleSchool [] ''Washington''] \<and>
   truthy (NCESSCH (exampleSchool ''111'' ''Lincoln HS'')) \<and>
   length (filter (\<lambda>s. strict_eq (NCESSCH s) (NCESSCH (exampleSchool ''111'' ''Lincoln HS'')))
     [exampleSchool ''111'' ''Lincoln High'', exampleSchool [] ''Washington'']) = 1 \<and>
   subseq [exampleSchool ''111'' ''Lincoln High'', exampleSchool [] ''Washington'']
     [exampleSchool ''111'' ''Lincoln High'', exampleSchool ''111'' ''Lincoln HS'',
      exampleSchool [] ''Washington'', exampleSchool [] ''Washington'']"
proof -
  have h: "[exampleSchool ''111'' ''Lincoln High'', exampleSchool [] ''Washington''] =
     dedupSchools [exampleSchool ''111'' ''Lincoln High'', exampleSchool ''111'' ''Lincoln HS'',
                   exampleSchool [] ''Washington'', exampleSchool [] ''Washington'']"
    by (simp add: dedupSchools_def filterIndexed_def dedupKeep_def findIndex_def exampleSchool_def
        upt_rec)
  have t: "truthy (NCESSCH (exampleSchool ''111'' ''Lincoln HS''))"
    by (simp add: exampleSchool_def)
  from dedupSchools_properties [OF h]
  have "subseq [exampleSchool ''111'' ''Lincoln High'', exampleSchool [] ''Washington'']
     [exampleSchool ''111'' ''Lincoln High'', exampleSchool ''111'' ''Lincoln HS'',
      exampleSchool [] ''Washington'', exampleSchool [] ''Washington'']"
    and "\<forall>x \<in> set [exampleSchool ''111'' ''Lincoln High'', exampleSchool ''111'' ''Lincoln HS'',
                   exampleSchool [] ''Washington'', exampleSchool [] ''Washington''].
           truthy (NCESSCH x) \<longrightarrow>
           length (filter (\<lambda>s. strict_eq (NCESSCH s) (NCESSCH x))
             [exampleSchool ''111'' ''Lincoln High'', exampleSchool [] ''Washington'']) = 1"
    by blast+
  with h t show ?thesis
    by simp
qed

section \<open>Properties of the controller\<close>

lemma runSchoolCleanup_other_fields:
  "schoolQueries (runSchoolCleanup (st\<lparr>selectedDistrict := d, selectedSchool := s, schoolCache := c\<rparr>)) =
     schoolQueries (runSchoolCleanup st)"
  by (simp add: runSchoolCleanup_def split: option.splits)

lemma strict_eq_JStr: "strict_eq v (JStr s) \<Longrightarrow> v = JStr s"
  by (cases v) auto

lemma find_district:
  assumes "\<exists>d \<in> set ds. strict_eq (d_LEAID d) (JStr leaId)"
  shows "\<exists>d. find (\<lambda>d. strict_eq (d_LEAID d) (JStr leaId)) ds = Some d \<and> d_LEAID d = JStr leaId"
proof (cases "find (\<lambda>d. strict_eq (d_LEAID d) (JStr leaId)) ds")
  case None
  with assms show ?thesis
    by (auto simp: find_None_iff)
next
  case (Some d)
  then have "strict_eq (d_LEAID d) (JStr leaId)"
    by (auto simp: find_Some_iff)
  with Some show ?thesis
    by (simp add: strict_eq_JStr)
qed

lemma schoolCacheKey_JStr:
  "schoolCacheKey (JStr leaId) q = (if leaId = [] then ''all'' else leaId) @ ''-'' @ q"
  by (simp add: schoolCacheKey_def)

lemma schoolCacheKey_all: "schoolCacheKey JUndefined q = ''all'' @ ''-'' @ q"
  by (simp add: schoolCacheKey_def)

text \<open>
  C5, as stated, fails: with no district selected (the old filter is \<open>all\<close>) and the text
  \<open>ab\<close>, selecting district \<open>D1\<close> leaves the cached list of the key for the old filter
  and the current text in the cache.
\<close>

theorem old_filter_entry_kept_counterexample:
  "selectedDistrict cachedSession = None \<and>
   schoolCacheKey JUndefined (trim (debouncedSchoolQuery cachedSession)) = ''all-ab'' \<and>
   schoolCache cachedSession ''all-ab'' = Some [exampleSchool ''111'' ''Lincoln High''] \<and>
   schoolCache (handleDistrictChange ''D1'' cachedSession) ''all-ab'' =
     Some [exampleSchool ''111'' ''Lincoln High'']"
  by (simp add: cachedSession_def initialSession_def handleDistrictChange_def schoolCacheKey_def
      trim_def isSpace_def)

lemma handleDistrictChange_fresh_query:
  assumes "leaId = [] \<or> (\<exists>d \<in> set (districts st). strict_eq (d_LEAID d) (JStr leaId))"
    and "2 \<le> length (trim (debouncedSchoolQuery st)) \<or> leaId \<noteq> []"
  shows "schoolQueries (schoolEffect (handleDistrictChange leaId st)) =
           schoolQueries (runSchoolCleanup st) @
             [\<lparr>q_name = trim (debouncedSchoolQuery st),
               q_districtLEAID = (if leaId = [] then JUndefined else JStr leaId),
               q_cacheKey = schoolCacheKey (JStr leaId) (trim (debouncedSchoolQuery st)),
               q_selectedSchool = None, q_aborted = False, q_settled = False\<rparr>]"
proof (cases "leaId = []")
  case True
  with assms(2) have "2 \<le> length (trim (debouncedSchoolQuery st))"
    by simp
  with True show ?thesis
    by (auto simp: schoolEffect_def handleDistrictChange_def Let_def runSchoolCleanup_fields
        runSchoolCleanup_other_fields schoolCacheKey_JStr)
next
  case False
  with assms(1) obtain d where
    d: "find (\<lambda>d. strict_eq (d_LEAID d) (JStr leaId)) (districts st) = Some d"
      "d_LEAID d = JStr leaId"
    using find_district by blast
  with False show ?thesis
    by (simp add: schoolEffect_def handleDistrictChange_def Let_def runSchoolCleanup_fields
        runSchoolCleanup_other_fields schoolCacheKey_JStr)
qed

text \<open>
  C5, amended: every district-selection change clears the school selection unconditionally
  and evicts the cached school result of the key made of the new filter and the current
  text; every other cache entry, the one of the old filter included, is kept. When the
  chosen district is in the district list (or the filter is removed) and a school query is
  due (text of length at least 2, or a district chosen), the next run of the school effect
  issues a fresh query under that key instead of serving a cached list.
\<close>

theorem handleDistrictChange_effects:
  "selectedSchool (handleDistrictChange leaId st) = None \<and>
   schoolCache (handleDistrictChange leaId st)
     (schoolCacheKey (JStr leaId) (trim (debouncedSchoolQuery st))) = None \<and>
   (\<forall>k. k \<noteq> schoolCacheKey (JStr leaId) (trim (debouncedSchoolQuery st)) \<longrightarrow>
      schoolCache (handleDistrictChange leaId st) k = schoolCache st k) \<and>
   ((leaId = [] \<or> (\<exists>d \<in> set (districts st). strict_eq (d_LEAID d) (JStr leaId))) \<and>
    (2 \<le> length (trim (debouncedSchoolQuery st)) \<or> leaId \<noteq> []) \<longrightarrow>
      schoolQueries (schoolEffect (handleDistrictChange leaId st)) =
        schoolQueries (runSchoolCleanup st) @
          [\<lparr>q_name = trim (debouncedSchoolQuery st),
            q_districtLEAID = (if leaId = [] then JUndefined else JStr leaId),
            q_cacheKey = schoolCacheKey (JStr leaId) (trim (debouncedSchoolQuery st)),
            q_selectedSchool = None, q_aborted = False, q_settled = False\<rparr>])"
  using handleDistrictChange_fresh_query [of leaId st]
  by (simp add: handleDistrictChange_def Let_def)

theorem handleDistrictChange_effects_witness:
  "districts cachedSession = [exampleDistrict ''D1''] \<and>
   strict_eq (d_LEAID (exampleDistrict ''D1'')) (JStr ''D1'') \<and>
   schoolCache cachedSession ''D1-ab'' \<noteq> None \<and>
   schoolCache (handleDistrictChange ''D1'' cachedSession) ''D1-ab'' = None \<and>
   schoolQueries (schoolEffect (handleDistrictChange ''D1'' cachedSession)) =
     [\<lparr>q_name = ''ab'', q_districtLEAID = JStr ''D1'', q_cacheKey = ''D1-ab'',
       q_selectedSchool = None, q_aborted = False, q_settled = False\<rparr>]"
  using handleDistrictChange_effects [of "''D1''" cachedSession]
  by (simp add: cachedSession_def initialSession_def exampleDistrict_def schoolCacheKey_def
      trim_def isSpace_def runSchoolCleanup_def)

lemma trim_examples: "trim ''Lincoln'' = ''Lincoln''" "trim ''Linc'' = ''Linc''"
  by (simp_all add: trim_def isSpace_def)

lemma schoolWhereClause_undefined: "\<exists>clause. schoolWhereClause nm JUndefined = Inr clause"
  by (simp add: schoolWhereClause_def Let_def)

lemma searchSchools_same_feature:
  "settled (searchSchools (\<lambda>r. respond [exampleFeature k ident name]) nm JUndefined) =
     Fulfilled [exampleSchool ident name]"
  using schoolWhereClause_undefined [of nm]
  by (auto simp: searchSchools_settled schoolsFrom_same_feature)

lemma searchSchools_lincolnNetwork:
  "settled (searchSchools lincolnNetwork name JUndefined) =
     Fulfilled [exampleSchool ''111'' ''Lincoln High'']"
  using searchSchools_same_feature [of 1 "''111''" "''Lincoln High''" name]
  by (simp add: lincolnNetwork_def [abs_def])

lemma searchSchools_all_aborted:
  "settled (searchSchools abortedFetch name lea) = Fulfilled []"
  by (rule searchSchools_aborted) (simp add: aborted_def abortedFetch_def)

lemma retyped_step1:
  "setDebouncedSchoolQuery ''Lincoln'' initialSession =
     initialSession\<lparr>debouncedSchoolQuery := ''Lincoln'', loadingSchools := True,
       schoolQueries := [\<lparr>q_name = ''Lincoln'', q_districtLEAID = JUndefined,
         q_cacheKey = ''all-Lincoln'', q_selectedSchool = None, q_aborted = False,
         q_settled = False\<rparr>],
       schoolCleanup := Some 0\<rparr>"
  by (simp add: setDebouncedSchoolQuery_def schoolEffect_def runSchoolCleanup_def
      initialSession_def trim_examples schoolCacheKey_def Let_def)

lemma retyped_step2:
  "settleSchoolQuery lincolnNetwork 0 (setDebouncedSchoolQuery ''Lincoln'' initialSession) =
     initialSession\<lparr>debouncedSchoolQuery := ''Lincoln'',
       schools := [exampleSchool ''111'' ''Lincoln High''],
       schoolCache := [''all-Lincoln'' \<mapsto> [exampleSchool ''111'' ''Lincoln High'']],
       schoolQueries := [\<lparr>q_name = ''Lincoln'', q_districtLEAID = JUndefined,
         q_cacheKey = ''all-Lincoln'', q_selectedSchool = None, q_aborted = False,
         q_settled = True\<rparr>],
       schoolCleanup := Some 0\<rparr>"
  unfolding retyped_step1
  by (simp add: settleSchoolQuery_def searchSchools_lincolnNetwork schoolThen_def Let_def
      initialSession_def)

lemma retyped_step3:
  "setDebouncedSchoolQuery ''Linc''
     (settleSchoolQuery lincolnNetwork 0 (setDebouncedSchoolQuery ''Lincoln'' initialSession)) =
     initialSession\<lparr>debouncedSchoolQuery := ''Linc'', loadingSchools := True,
       schools := [exampleSchool ''111'' ''Lincoln High''],
       schoolCache := [''all-Lincoln'' \<mapsto> [exampleSchool ''111'' ''Lincoln High'']],
       schoolQueries := [\<lparr>q_name = ''Lincoln'', q_districtLEAID = JUndefined,
         q_cacheKey = ''all-Lincoln'', q_selectedSchool = None, q_aborted = True,
         q_settled = True\<rparr>,
         \<lparr>q_name = ''Linc'', q_districtLEAID = JUndefined,
         q_cacheKey = ''all-Linc'', q_selectedSchool = None, q_aborted = False,
         q_settled = False\<rparr>],
       schoolCleanup := Some 1\<rparr>"
  unfolding retyped_step2
  by (simp add: setDebouncedSchoolQuery_def schoolEffect_def runSchoolCleanup_def
      initialSession_def trim_examples schoolCacheKey_def Let_def)

lemma retyped_step4:
  "retypedSession =
     initialSession\<lparr>debouncedSchoolQuery := ''Lincoln'', loadingSchools := True,
       schools := [exampleSchool ''111'' ''Lincoln High''],
       schoolCache := [''all-Lincoln'' \<mapsto> [exampleSchool ''111'' ''Lincoln High'']],
       schoolQueries := [\<lparr>q_name = ''Lincoln'', q_districtLEAID = JUndefined,
         q_cacheKey = ''all-Lincoln'', q_selectedSchool = None, q_aborted = True,
         q_settled = True\<rparr>,
         \<lparr>q_name = ''Linc'', q_districtLEAID = JUndefined,
         q_cacheKey = ''all-Linc'', q_selectedSchool = None, q_aborted = True,
         q_settled = False\<rparr>],
       schoolCleanup := None\<rparr>"
  unfolding retypedSession_def retyped_step3
  by (simp add: setDebouncedSchoolQuery_def schoolEffect_def runSchoolCleanup_def
      initialSession_def trim_examples schoolCacheKey_def Let_def)

text \<open>
  C1, the code at the failing input: in \<open>retypedSession\<close> the most recent query text is
  \<open>Lincoln\<close>, its list is shown, and the superseded query for \<open>Linc\<close> has been aborted and
  has not settled. When its promise settles, its empty result replaces the visible list and
  is stored in the cache under the key of the superseded query.
\<close>

theorem aborted_query_result_applied:
  "debouncedSchoolQuery retypedSession = ''Lincoln'' \<and>
   schools retypedSession = [exampleSchool ''111'' ''Lincoln High''] \<and>
   map q_name (schoolQueries retypedSession) = [''Lincoln'', ''Linc''] \<and>
   q_aborted (schoolQueries retypedSession ! 1) \<and>
   \<not> q_settled (schoolQueries retypedSession ! 1) \<and>
   schoolCache retypedSession ''all-Linc'' = None \<and>
   schools (settleSchoolQuery lincolnNetwork 1 retypedSession) = [] \<and>
   schoolCache (settleSchoolQuery lincolnNetwork 1 retypedSession) ''all-Linc'' = Some []"
  unfolding retyped_step4
  by (simp add: settleSchoolQuery_def searchSchools_all_aborted schoolThen_def Let_def
      initialSession_def)

lemma selectedSchool_schoolThen:
  "selectedSchool (schoolThen query res st) =
     (case q_selectedSchool query of
        None \<Rightarrow> selectedSchool st
      | Some selected \<Rightarrow> if stillExists selected res then selectedSchool st else None)"
  by (simp add: schoolThen_def Let_def split: option.splits)

text \<open>
  C6, as stated, fails: the selected school has the identifier \<open>5\<close>, no record of the new
  result set has that identifier, and the selection is kept because a record with another
  identifier has the same name and city.
\<close>

theorem selection_kept_by_name_and_city_counterexample:
  "truthy (NCESSCH (exampleSchool ''5'' ''Lincoln High'')) \<and>
   \<not> strict_eq (NCESSCH (exampleSchool ''7'' ''Lincoln High''))
        (NCESSCH (exampleSchool ''5'' ''Lincoln High'')) \<and>
   selectedSchool
     (schoolThen
        \<lparr>q_name = ''Lincoln'', q_districtLEAID = JUndefined, q_cacheKey = ''all-Lincoln'',
         q_selectedSchool = Some (exampleSchool ''5'' ''Lincoln High''), q_aborted = False,
         q_settled = False\<rparr>
        [exampleSchool ''7'' ''Lincoln High'']
        (initialSession\<lparr>selectedSchool := Some (exampleSchool ''5'' ''Lincoln High'')\<rparr>)) =
     Some (exampleSchool ''5'' ''Lincoln High'')"
  by (simp add: selectedSchool_schoolThen stillExists_def exampleSchool_def initialSession_def)

text \<open>
  C6, amended: when a school fetch completes for a query issued while a school with a
  non-empty identifier was selected, the \<open>.then\<close> callback keeps the selection iff some
  record of the new result set has the same identifier, or the same name and the same city
  whatever its identifier; otherwise the selection is cleared.
\<close>

theorem selection_after_school_fetch:
  assumes "q_selectedSchool query = Some selected" and "truthy (NCESSCH selected)"
  shows "selectedSchool (schoolThen query res st) =
           (if \<exists>s \<in> set res. strict_eq (NCESSCH s) (NCESSCH selected) \<or>
                  (strict_eq (NAME s) (NAME selected) \<and> strict_eq (CITY s) (CITY selected))
            then selectedSchool st else None) \<and>
         (i < length (schoolQueries st) \<and> \<not> q_settled (schoolQueries st ! i) \<and>
          \<not> q_aborted (schoolQueries st ! i) \<and> schoolQueries st ! i = query \<and>
          settled (searchSchools fetch (q_name query) (q_districtLEAID query)) = Fulfilled res \<longrightarrow>
            selectedSchool (settleSchoolQuery fetch i st) =
              (if \<exists>s \<in> set res. strict_eq (NCESSCH s) (NCESSCH selected) \<or>
                     (strict_eq (NAME s) (NAME selected) \<and> strict_eq (CITY s) (CITY selected))
               then selectedSchool st else None))"
  using assms
  by (auto simp: selectedSchool_schoolThen stillExists_def list_ex_iff settleSchoolQuery_def Let_def)

theorem selection_after_school_fetch_witness:
  "truthy (NCESSCH (exampleSchool ''5'' ''Lincoln High'')) \<and>
   settled (searchSchools washingtonNetwork ''Wash'' JUndefined) =
     Fulfilled [exampleSchool ''9'' ''Washington''] \<and>
   selectedSchool
     (settleSchoolQuery washingtonNetwork 0
        (initialSession\<lparr>selectedSchool := Some (exampleSchool ''5'' ''Lincoln High''),
           schoolQueries :=
             [\<lparr>q_name = ''Wash'', q_districtLEAID = JUndefined, q_cacheKey = ''all-Wash'',
               q_selectedSchool = Some (exampleSchool ''5'' ''Lincoln High''),
               q_aborted = False, q_settled = False\<rparr>]\<rparr>)) = None"
proof -
  let ?query = "\<lparr>q_name = ''Wash'', q_districtLEAID = JUndefined, q_cacheKey = ''all-Wash'',
    q_selectedSchool = Some (exampleSchool ''5'' ''Lincoln High''),
    q_aborted = False, q_settled = False\<rparr>"
  let ?st = "initialSession\<lparr>selectedSchool := Some (exampleSchool ''5'' ''Lincoln High''),
    schoolQueries := [?query]\<rparr>"
  have s: "q_selectedSchool ?query = Some (exampleSchool ''5'' ''Lincoln High'')"
    by simp
  have t: "truthy (NCESSCH (exampleSchool ''5'' ''Lincoln High''))"
    by (simp add: exampleSchool_def)
  have r: "settled (searchSchools washingtonNetwork
      ''Wash'' JUndefined) = Fulfilled [exampleSchool ''9'' ''Washington'']"
    using searchSchools_same_feature [of 1 "''9''" "''Washington''" "''Wash''"]
    by (simp add: washingtonNetwork_def [abs_def])
  from selection_after_school_fetch [OF s t, of "[exampleSchool ''9'' ''Washington'']" ?st 0
      washingtonNetwork, THEN conjunct2] r
  have "selectedSchool (settleSchoolQuery washingtonNetwork 0 ?st) =
      None"
    by (simp add: exampleSchool_def)
  with t r show ?thesis
    by simp
qed

end
